theory Spec2Isabelle
  imports Complex_Main
begin

section \<open>Error taxonomy (historical-weather-errors)\<close>

text \<open>
  The class of a \<open>HistoricalWeatherError\<close> object. The source sets \<open>this.name\<close> to the
  class name in every constructor, so the tag also decides every \<open>instanceof\<close> test
  among the subclasses.
\<close>

datatype error_name =
    HistoricalWeatherError
  | DateValidationError
  | APILimitError
  | DataUnavailableError
  | NetworkError

text \<open>
  A JavaScript number: a finite value, given by its exact rational value, \<open>NaN\<close>, or
  one of the two infinities. (\<open>-0\<close> is not told apart from \<open>0\<close>: the source only
  tests such a number for truthiness and multiplies it, and both zeros are falsy.)
\<close>

datatype js_number = Num rat | NaN | PosInfinity | NegInfinity

fun truthy_number :: "js_number option \<Rightarrow> bool" where
  "truthy_number None = False"
| "truthy_number (Some NaN) = False"
| "truthy_number (Some (Num x)) = (x \<noteq> 0)"
| "truthy_number (Some PosInfinity) = True"
| "truthy_number (Some NegInfinity) = True"

text \<open>The product of a number and a positive finite factor.\<close>

fun times_positive :: "js_number \<Rightarrow> rat \<Rightarrow> js_number" where
  "times_positive (Num x) k = Num (x * k)"
| "times_positive NaN k = NaN"
| "times_positive PosInfinity k = PosInfinity"
| "times_positive NegInfinity k = NegInfinity"

text \<open>
  The fields of the error classes. \<open>statusCode\<close> is \<open>None\<close> where the source leaves it
  \<open>undefined\<close>; \<open>retryAfter\<close> is a field of \<open>APILimitError\<close> only and \<open>None\<close>
  elsewhere.
\<close>

record hw_error =
  name :: error_name
  message :: string
  code :: string
  statusCode :: "int option"
  retryAfter :: "js_number option"

definition new_HistoricalWeatherError :: "string \<Rightarrow> string \<Rightarrow> int option \<Rightarrow> hw_error" where
  "new_HistoricalWeatherError m c s =
     \<lparr>name = HistoricalWeatherError, message = m, code = c, statusCode = s, retryAfter = None\<rparr>"

definition new_DateValidationError :: "string \<Rightarrow> hw_error" where
  "new_DateValidationError m =
     \<lparr>name = DateValidationError, message = m, code = ''DATE_VALIDATION_ERROR'',
      statusCode = None, retryAfter = None\<rparr>"

definition new_APILimitError :: "string \<Rightarrow> js_number option \<Rightarrow> hw_error" where
  "new_APILimitError m r =
     \<lparr>name = APILimitError, message = m, code = ''API_LIMIT_ERROR'',
      statusCode = Some 429, retryAfter = r\<rparr>"

definition new_DataUnavailableError :: "string \<Rightarrow> hw_error" where
  "new_DataUnavailableError m =
     \<lparr>name = DataUnavailableError, message = m, code = ''DATA_UNAVAILABLE_ERROR'',
      statusCode = Some 404, retryAfter = None\<rparr>"

definition new_NetworkError :: "string \<Rightarrow> hw_error" where
  "new_NetworkError m =
     \<lparr>name = NetworkError, message = m, code = ''NETWORK_ERROR'',
      statusCode = None, retryAfter = None\<rparr>"

subsection \<open>Raw failures\<close>

text \<open>
  What \<open>handleAPIError\<close> inspects of a thrown object that is not a
  \<open>HistoricalWeatherError\<close>: whether it is a \<open>TypeError\<close>, its \<open>message\<close>, and the
  properties \<open>status\<close>, \<open>statusCode\<close> and \<open>headers\<close>. For \<open>status\<close> and
  \<open>statusCode\<close> the outer option is the \<open>in\<close> test (is the property there), the inner
  one its value (\<open>None\<close> for \<open>undefined\<close>). A missing or undefined \<open>headers\<close> and a
  missing or undefined \<open>message\<close> are both \<open>None\<close>: the source treats them alike.
\<close>

record raw_object =
  isTypeError :: bool
  msg :: "string option"
  status :: "int option option"
  statusCodeProp :: "int option option"
  headers :: "(string \<rightharpoonup> string) option"

datatype raw_error =
    Classified hw_error
  | Object raw_object
  | Primitive

subsection \<open>Strings\<close>

definition digit_char :: "nat \<Rightarrow> char" where
  "digit_char n = ''0123456789'' ! (n mod 10)"

fun digits :: "nat \<Rightarrow> string" where
  "digits n = (if n < 10 then [digit_char n] else digits (n div 10) @ [digit_char (n mod 10)])"

declare digits.simps [simp del]

definition int_to_string :: "int \<Rightarrow> string" where
  "int_to_string i = (if i < 0 then ''-'' @ digits (nat (- i)) else digits (nat i))"

text \<open>\<open>String.prototype.includes\<close>: the needle occurs at some position of the string.\<close>

fun includes_str :: "string \<Rightarrow> string \<Rightarrow> bool" where
  "includes_str [] needle = (needle = [])"
| "includes_str (c # cs) needle = (take (length needle) (c # cs) = needle \<or> includes_str cs needle)"

subsection \<open>handleAPIError\<close>

text \<open>
  \<open>parseInt\<close> is the JavaScript built-in, which the source applies to the
  \<open>retry-after\<close> header. It is not part of the repository, and parts of it are left to
  the implementation, so it is a parameter of everything that reaches it.
\<close>

definition prop_value :: "int option option \<Rightarrow> int option" where
  "prop_value p = (case p of None \<Rightarrow> None | Some v \<Rightarrow> v)"

text \<open>
  \<open>error.status || error.statusCode\<close>: the first operand when it is truthy (a number
  other than \<open>0\<close>), the second otherwise.
\<close>

definition status_or_statusCode :: "raw_object \<Rightarrow> int option" where
  "status_or_statusCode ob =
     (case status ob of
        Some (Some n) \<Rightarrow> if n = 0 then prop_value (statusCodeProp ob) else Some n
      | _ \<Rightarrow> prop_value (statusCodeProp ob))"

definition has_status_property :: "raw_object \<Rightarrow> bool" where
  "has_status_property ob =
     (case (status ob, statusCodeProp ob) of (None, None) \<Rightarrow> False | _ \<Rightarrow> True)"

text \<open>A \<open>TypeError\<close> always has a message; it is the empty string when none was given.\<close>

definition message_text :: "raw_object \<Rightarrow> string" where
  "message_text ob = (case msg ob of None \<Rightarrow> [] | Some m \<Rightarrow> m)"

definition header_retry_after :: "(string \<Rightarrow> js_number) \<Rightarrow> raw_object \<Rightarrow> js_number option" where
  "header_retry_after parseInt ob =
     (case headers ob of
        None \<Rightarrow> None
      | Some h \<Rightarrow>
          (case h ''retry-after'' of
             None \<Rightarrow> None
           | Some v \<Rightarrow> if v = [] then None else Some (parseInt v)))"

definition status_text :: "int option \<Rightarrow> string" where
  "status_text s = (case s of None \<Rightarrow> ''undefined'' | Some n \<Rightarrow> int_to_string n)"

text \<open>The last branch of \<open>handleAPIError\<close>: an \<open>UNKNOWN_ERROR\<close> from the message, if any.\<close>

definition generic_error :: "string option \<Rightarrow> string option \<Rightarrow> hw_error" where
  "generic_error m ctx =
     (let message =
            (case m of
               None \<Rightarrow> ''An unexpected error occurred while fetching weather data.''
             | Some t \<Rightarrow>
                 if t = [] then ''An unexpected error occurred while fetching weather data.''
                 else t);
          contextMessage =
            (case ctx of
               None \<Rightarrow> message
             | Some c \<Rightarrow> if c = [] then message else c @ '': '' @ message)
      in new_HistoricalWeatherError contextMessage ''UNKNOWN_ERROR'' None)"

definition status_error :: "(string \<Rightarrow> js_number) \<Rightarrow> raw_object \<Rightarrow> hw_error" where
  "status_error parseInt ob =
     (let status = status_or_statusCode ob in
      if status = Some 401 then
        new_HistoricalWeatherError
          ''Invalid API key. Please check your OpenWeatherMap API key configuration.''
          ''INVALID_API_KEY'' (Some 401)
      else if status = Some 403 then
        new_HistoricalWeatherError
          ''Access forbidden. Your API key may not have access to historical weather data.''
          ''ACCESS_FORBIDDEN'' (Some 403)
      else if status = Some 404 then
        new_DataUnavailableError
          ''Historical weather data is not available for the requested date and location.''
      else if status = Some 429 then
        new_APILimitError ''API rate limit exceeded. Please try again later.''
          (header_retry_after parseInt ob)
      else if status = Some 500 \<or> status = Some 502 \<or> status = Some 503 then
        new_HistoricalWeatherError
          ''Weather service is temporarily unavailable. Please try again later.''
          ''SERVICE_UNAVAILABLE'' status
      else
        new_HistoricalWeatherError
          (''Weather service error ('' @ status_text status @ ''). Please try again.'')
          ''API_ERROR'' status)"

fun handleAPIError ::
  "(string \<Rightarrow> js_number) \<Rightarrow> raw_error \<Rightarrow> string option \<Rightarrow> hw_error" where
  "handleAPIError parseInt (Classified e) ctx = e"
| "handleAPIError parseInt (Object ob) ctx =
     (if isTypeError ob \<and> includes_str (message_text ob) ''fetch'' then
        new_NetworkError ''Network connection failed. Please check your internet connection.''
      else if has_status_property ob then status_error parseInt ob
      else generic_error (msg ob) ctx)"
| "handleAPIError parseInt Primitive ctx = generic_error None ctx"

subsection \<open>isRetryable and getRetryDelay\<close>

definition retryableCodes :: "string list" where
  "retryableCodes = [''NETWORK_ERROR'', ''SERVICE_UNAVAILABLE'', ''API_LIMIT_ERROR'']"

definition retryableStatusCodes :: "int list" where
  "retryableStatusCodes = [429, 500, 502, 503, 504]"

definition isRetryable :: "hw_error \<Rightarrow> bool" where
  "isRetryable e =
     (code e \<in> set retryableCodes \<or>
      (case statusCode e of None \<Rightarrow> False | Some s \<Rightarrow> s \<in> set retryableStatusCodes))"

text \<open>
  \<open>getRetryDelay\<close>, in milliseconds. \<open>rnd\<close> is the value \<open>Math.random()\<close> returns in
  this call, a number in \<open>[0, 1)\<close>. The arithmetic on finite values is exact: the
  rounding of the source's double-precision operations is not modelled.
\<close>

definition carries_retryAfter :: "hw_error \<Rightarrow> bool" where
  "carries_retryAfter e = (name e = APILimitError \<and> truthy_number (retryAfter e))"

text \<open>\<open>error.retryAfter * 1000\<close>; an \<open>undefined\<close> operand gives \<open>NaN\<close>.\<close>

definition retryAfter_ms :: "hw_error \<Rightarrow> js_number" where
  "retryAfter_ms e = (case retryAfter e of None \<Rightarrow> NaN | Some x \<Rightarrow> times_positive x 1000)"

definition getRetryDelay :: "hw_error \<Rightarrow> int \<Rightarrow> rat \<Rightarrow> js_number" where
  "getRetryDelay e attempt rnd =
     (if carries_retryAfter e then retryAfter_ms e
      else
        (let baseDelay = 1000;
             maxDelay = 30000;
             delay = min (baseDelay * (2 powi (attempt - 1))) maxDelay;
             jitter = rnd * (1 / 10) * delay
         in Num (delay + jitter)))"

section \<open>Retry engine: withRetry\<close>

text \<open>
  The operation is opaque and may behave differently at each call: \<open>operation k\<close> is how
  its call number \<open>k\<close> (counted from \<open>0\<close>) settles. \<open>rnd n\<close> is the value of
  \<open>Math.random()\<close> drawn while the delay after attempt \<open>n\<close> is computed. A run records
  how the returned promise settles, how many times the operation was invoked, and the
  delays handed to \<open>setTimeout\<close>, in order. Logging is left out.
\<close>

datatype 'a settled = Resolved 'a | Rejected raw_error

datatype 'a retry_outcome = Returned 'a | Thrown hw_error | ThrownUndefined

record 'a retry_run =
  outcome :: "'a retry_outcome"
  invocations :: nat
  delays :: "js_number list"

function withRetry_loop ::
  "(string \<Rightarrow> js_number) \<Rightarrow> (nat \<Rightarrow> 'a settled) \<Rightarrow> int \<Rightarrow> string \<Rightarrow> (int \<Rightarrow> rat) \<Rightarrow>
   int \<Rightarrow> hw_error option \<Rightarrow> nat \<Rightarrow> js_number list \<Rightarrow> 'a retry_run" where
  "withRetry_loop parseInt operation maxAttempts ctx rnd attempt lastError n ds =
     (if attempt \<le> maxAttempts then
        (case operation n of
           Resolved v \<Rightarrow> \<lparr>outcome = Returned v, invocations = Suc n, delays = ds\<rparr>
         | Rejected error \<Rightarrow>
             (let lastError' = handleAPIError parseInt error (Some ctx) in
              if \<not> isRetryable lastError' then
                \<lparr>outcome = Thrown lastError', invocations = Suc n, delays = ds\<rparr>
              else if attempt = maxAttempts then
                \<lparr>outcome = Thrown lastError', invocations = Suc n, delays = ds\<rparr>
              else
                (let delay = getRetryDelay lastError' attempt (rnd attempt) in
                 withRetry_loop parseInt operation maxAttempts ctx rnd (attempt + 1)
                   (Some lastError') (Suc n) (ds @ [delay]))))
      else
        (case lastError of
           None \<Rightarrow> \<lparr>outcome = ThrownUndefined, invocations = n, delays = ds\<rparr>
         | Some e \<Rightarrow> \<lparr>outcome = Thrown e, invocations = n, delays = ds\<rparr>))"
  by pat_completeness auto
termination
  by (relation "measure (\<lambda>(parseInt, operation, maxAttempts, ctx, rnd, attempt, lastError, n, ds).
        nat (maxAttempts + 1 - attempt))") auto

declare withRetry_loop.simps [simp del]

definition withRetry ::
  "(string \<Rightarrow> js_number) \<Rightarrow> (nat \<Rightarrow> 'a settled) \<Rightarrow> int \<Rightarrow> string \<Rightarrow> (int \<Rightarrow> rat) \<Rightarrow>
   'a retry_run" where
  "withRetry parseInt operation maxAttempts ctx rnd =
     withRetry_loop parseInt operation maxAttempts ctx rnd 1 None 0 []"

section \<open>Cache manager (historical-weather-cache)\<close>

subsection \<open>Numbers, dates and keys\<close>

text \<open>
  A coordinate is a finite JavaScript number, modelled by its exact rational value.
  \<open>Number.prototype.toFixed(4)\<close> works on that exact value: the sign is split off,
  \<open>n\<close> is the integer for which \<open>n / 10\<^sup>4\<close> is closest to the magnitude (the larger one
  at a tie), and its digits are printed with at least one digit before the point.
  (\<open>NaN\<close>, the infinities and magnitudes of \<open>10\<^sup>2\<^sup>1\<close> and more, which \<open>toFixed\<close>
  prints in another format, are outside this model.)
\<close>

definition pad_fraction :: "string \<Rightarrow> string" where
  "pad_fraction m = (if length m \<le> 4 then replicate (5 - length m) CHR ''0'' @ m else m)"

definition insert_point :: "string \<Rightarrow> string" where
  "insert_point m = take (length m - 4) m @ ''.'' @ drop (length m - 4) m"

definition toFixed4 :: "rat \<Rightarrow> string" where
  "toFixed4 x =
     (if x < 0 then ''-'' else []) @
     insert_point (pad_fraction (digits (nat \<lfloor>\<bar>x\<bar> * 10000 + 1 / 2\<rfloor>)))"

text \<open>
  A \<open>Date\<close> object holds a time value in milliseconds since the epoch, or is an
  \<open>Invalid Date\<close>, on which \<open>toISOString\<close> throws a \<open>RangeError\<close>.
\<close>

datatype js_date = DateMs int | InvalidDate

datatype cache_failure = RangeError | RequestError

definition msPerDay :: int where
  "msPerDay = 86400000"

text \<open>Year, month and day of the proleptic Gregorian calendar (UTC) from a day number.\<close>

definition month_of :: "int \<Rightarrow> int" where
  "month_of mp = (if mp < 10 then mp + 3 else mp - 9)"

definition civil_of_month :: "int \<Rightarrow> int \<Rightarrow> int \<Rightarrow> int \<Rightarrow> int \<times> int \<times> int" where
  "civil_of_month era yoe doy mp =
     (yoe + era * 400 + (if month_of mp \<le> 2 then 1 else 0),
      month_of mp,
      doy - (153 * mp + 2) div 5 + 1)"

definition civil_of_day :: "int \<Rightarrow> int \<Rightarrow> int \<Rightarrow> int \<times> int \<times> int" where
  "civil_of_day era yoe doy = civil_of_month era yoe doy ((5 * doy + 2) div 153)"

definition civil_of_year :: "int \<Rightarrow> int \<Rightarrow> int \<Rightarrow> int \<times> int \<times> int" where
  "civil_of_year era doe yoe =
     civil_of_day era yoe (doe - (365 * yoe + yoe div 4 - yoe div 100))"

definition civil_of_era :: "int \<Rightarrow> int \<Rightarrow> int \<times> int \<times> int" where
  "civil_of_era era doe =
     civil_of_year era doe ((doe - doe div 1460 + doe div 36524 - doe div 146096) div 365)"

definition civil_from_days :: "int \<Rightarrow> int \<times> int \<times> int" where
  "civil_from_days z = civil_of_era ((z + 719468) div 146097) ((z + 719468) mod 146097)"

definition padStart :: "nat \<Rightarrow> string \<Rightarrow> string" where
  "padStart w t = replicate (w - length t) CHR ''0'' @ t"

text \<open>
  The date part of \<open>toISOString()\<close> (what \<open>split('T')[0]\<close> keeps): four digits for the
  years \<open>0\<close> to \<open>9999\<close>, a sign and six digits otherwise.
\<close>

definition iso_year :: "int \<Rightarrow> string" where
  "iso_year y =
     (if 0 \<le> y \<and> y \<le> 9999 then padStart 4 (digits (nat y))
      else if y < 0 then ''-'' @ padStart 6 (digits (nat (- y)))
      else ''+'' @ padStart 6 (digits (nat y)))"

definition iso_date :: "int \<Rightarrow> string" where
  "iso_date t =
     (case civil_from_days (t div msPerDay) of
        (y, m, d) \<Rightarrow>
          iso_year y @ ''-'' @ padStart 2 (digits (nat m)) @ ''-'' @ padStart 2 (digits (nat d)))"

definition generateHistoricalKey :: "rat \<Rightarrow> rat \<Rightarrow> js_date \<Rightarrow> cache_failure + string" where
  "generateHistoricalKey lat lon date =
     (case date of
        InvalidDate \<Rightarrow> Inl RangeError
      | DateMs t \<Rightarrow> Inr (toFixed4 lat @ ''_'' @ toFixed4 lon @ ''_'' @ iso_date t))"

datatype analysis_type = trends | patterns | statistics

datatype TimeRange = range_7d | range_30d | range_90d | range_1y | range_custom

fun analysis_type_text :: "analysis_type \<Rightarrow> string" where
  "analysis_type_text trends = ''trends''"
| "analysis_type_text patterns = ''patterns''"
| "analysis_type_text statistics = ''statistics''"

fun TimeRange_text :: "TimeRange \<Rightarrow> string" where
  "TimeRange_text range_7d = ''7d''"
| "TimeRange_text range_30d = ''30d''"
| "TimeRange_text range_90d = ''90d''"
| "TimeRange_text range_1y = ''1y''"
| "TimeRange_text range_custom = ''custom''"

definition generateAnalyticsKey :: "string \<Rightarrow> analysis_type \<Rightarrow> TimeRange \<Rightarrow> string" where
  "generateAnalyticsKey locationId analysisType timeRange =
     locationId @ ''_'' @ analysis_type_text analysisType @ ''_'' @ TimeRange_text timeRange"

subsection \<open>Entries and the two tiers\<close>

text \<open>
  Timestamps are milliseconds since the epoch. The payloads (\<open>HistoricalWeatherData\<close>
  and the analytics results) are opaque: type parameters \<open>'d\<close> and \<open>'a\<close>.
\<close>

record 'd HistoricalWeatherCache =
  id_key :: string
  location :: "rat \<times> rat"
  date_text :: string
  data :: 'd
  cachedAt :: int
  expiresAt :: int

record 'a WeatherAnalyticsCache =
  analytics_id :: string
  locationId :: string
  analysisType :: analysis_type
  timeRange :: TimeRange
  analytics_data :: 'a
  calculatedAt :: int
  analytics_expiresAt :: int

text \<open>The IndexedDB database: one object store per kind, keyed by the entry's id.\<close>

record ('d, 'a) idb =
  historical_weather :: "string \<rightharpoonup> 'd HistoricalWeatherCache"
  weather_analytics :: "string \<rightharpoonup> 'a WeatherAnalyticsCache"

text \<open>
  The manager: the database handle (\<open>None\<close> for \<open>null\<close>, the memory-only mode) and the
  two in-memory maps.
\<close>

record ('d, 'a) manager =
  db :: "('d, 'a) idb option"
  memoryCache :: "string \<rightharpoonup> 'd HistoricalWeatherCache"
  analyticsMemoryCache :: "string \<rightharpoonup> 'a WeatherAnalyticsCache"

text \<open>How a request to the database ends: its \<open>onsuccess\<close> or its \<open>onerror\<close> fires.\<close>

datatype request_outcome = onsuccess | onerror

definition CACHE_EXPIRY_HOURS :: int where
  "CACHE_EXPIRY_HOURS = 24"

definition ANALYTICS_EXPIRY_HOURS :: int where
  "ANALYTICS_EXPIRY_HOURS = 6"

definition msPerHour :: int where
  "msPerHour = 3600000"

text \<open>
  The time zone of the host, as the \<open>Date\<close> methods see it: \<open>LocalTime\<close> takes a
  time value (UTC) to the local clock, and \<open>UTC\<close> takes a reading of the local clock
  back to a time value. Both are the host's, so they are parameters.
\<close>

record time_zone =
  LocalTime :: "int \<Rightarrow> int"
  UTC :: "int \<Rightarrow> int"

text \<open>
  \<open>d.setHours(d.getHours() + h)\<close> on a \<open>Date\<close> with time value \<open>t\<close>: the hour field
  of the local clock is raised by \<open>h\<close>, which moves the local reading on by \<open>h\<close> hours,
  and the result is taken back to a time value. (\<open>t\<close> is a reading of the clock, so the
  result is inside the range of \<open>Date\<close>.)
\<close>

definition setHours_plus :: "time_zone \<Rightarrow> int \<Rightarrow> int \<Rightarrow> int" where
  "setHours_plus tz t h = UTC tz (LocalTime tz t + h * msPerHour)"

definition new_manager :: "('d, 'a) manager" where
  "new_manager = \<lparr>db = None, memoryCache = Map.empty, analyticsMemoryCache = Map.empty\<rparr>"

text \<open>
  \<open>initialize\<close>: without a \<open>window\<close> the manager stays memory-only; otherwise the
  database is opened, and \<open>stored\<close> is what it holds.
\<close>

definition initialize ::
  "bool \<Rightarrow> request_outcome \<Rightarrow> ('d, 'a) idb \<Rightarrow> ('d, 'a) manager \<Rightarrow>
   (cache_failure + unit) \<times> ('d, 'a) manager" where
  "initialize has_window open_req stored m =
     (if \<not> has_window then (Inr (), m)
      else
        (case open_req of
           onerror \<Rightarrow> (Inl RequestError, m)
         | onsuccess \<Rightarrow> (Inr (), m\<lparr>db := Some stored\<rparr>)))"

text \<open>\<open>isExpired\<close>: \<open>now\<close> is the value of \<open>new Date()\<close> at the call.\<close>

definition isExpired :: "int \<Rightarrow> int \<Rightarrow> bool" where
  "isExpired now t = (now > t)"

subsection \<open>Historical records\<close>

text \<open>
  Every operation takes \<open>now\<close>, the clock reading of its \<open>new Date()\<close> calls, and
  the outcome of each database request it may issue, and returns how its promise settles
  together with the manager after it. A request that fails leaves the store as it was.
\<close>

definition removeHistoricalWeather ::
  "request_outcome \<Rightarrow> rat \<Rightarrow> rat \<Rightarrow> js_date \<Rightarrow> ('d, 'a) manager \<Rightarrow>
   (cache_failure + unit) \<times> ('d, 'a) manager" where
  "removeHistoricalWeather delete_req lat lon date m =
     (case generateHistoricalKey lat lon date of
        Inl ex \<Rightarrow> (Inl ex, m)
      | Inr key \<Rightarrow>
          (let m1 = m\<lparr>memoryCache := (memoryCache m)(key := None)\<rparr> in
           case db m1 of
             None \<Rightarrow> (Inr (), m1)
           | Some d \<Rightarrow>
               (case delete_req of
                  onsuccess \<Rightarrow>
                    (Inr (),
                     m1\<lparr>db := Some (d\<lparr>historical_weather := (historical_weather d)(key := None)\<rparr>)\<rparr>)
                | onerror \<Rightarrow> (Inr (), m1))))"

text \<open>
  The part of \<open>getHistoricalWeather\<close> after the memory tier missed: the lookup in
  IndexedDB. An expired stored entry is removed through \<open>removeHistoricalWeather\<close>,
  whose own request is taken as finished when the operation returns.
\<close>

definition getHistoricalWeather_db ::
  "int \<Rightarrow> request_outcome \<Rightarrow> request_outcome \<Rightarrow> rat \<Rightarrow> rat \<Rightarrow> js_date \<Rightarrow> string \<Rightarrow>
   ('d, 'a) manager \<Rightarrow> (cache_failure + 'd option) \<times> ('d, 'a) manager" where
  "getHistoricalWeather_db now get_req delete_req lat lon date key m =
     (case db m of
        None \<Rightarrow> (Inr None, m)
      | Some d \<Rightarrow>
          (case get_req of
             onerror \<Rightarrow> (Inr None, m)
           | onsuccess \<Rightarrow>
               (case historical_weather d key of
                  None \<Rightarrow> (Inr None, m)
                | Some cached \<Rightarrow>
                    if isExpired now (expiresAt cached) then
                      (Inr None, snd (removeHistoricalWeather delete_req lat lon date m))
                    else
                      (Inr (Some (data cached)),
                       m\<lparr>memoryCache := (memoryCache m)(key \<mapsto> cached)\<rparr>))))"

definition getHistoricalWeather ::
  "int \<Rightarrow> request_outcome \<Rightarrow> request_outcome \<Rightarrow> rat \<Rightarrow> rat \<Rightarrow> js_date \<Rightarrow>
   ('d, 'a) manager \<Rightarrow> (cache_failure + 'd option) \<times> ('d, 'a) manager" where
  "getHistoricalWeather now get_req delete_req lat lon date m =
     (case generateHistoricalKey lat lon date of
        Inl ex \<Rightarrow> (Inl ex, m)
      | Inr key \<Rightarrow>
          (case memoryCache m key of
             None \<Rightarrow> getHistoricalWeather_db now get_req delete_req lat lon date key m
           | Some memoryData \<Rightarrow>
               if isExpired now (expiresAt memoryData) then
                 getHistoricalWeather_db now get_req delete_req lat lon date key m
               else (Inr (Some (data memoryData)), m)))"

text \<open>
  \<open>setHistoricalWeather\<close>. \<open>expiresAt\<close> is a \<open>new Date()\<close> whose hour field is
  raised by \<open>CACHE_EXPIRY_HOURS\<close> on the local clock of the time zone \<open>tz\<close>.
\<close>

definition setHistoricalWeather ::
  "time_zone \<Rightarrow> int \<Rightarrow> request_outcome \<Rightarrow> rat \<Rightarrow> rat \<Rightarrow> js_date \<Rightarrow> 'd \<Rightarrow> ('d, 'a) manager \<Rightarrow>
   (cache_failure + unit) \<times> ('d, 'a) manager" where
  "setHistoricalWeather tz now put_req lat lon date payload m =
     (case date of
        InvalidDate \<Rightarrow> (Inl RangeError, m)
      | DateMs t \<Rightarrow>
          (case generateHistoricalKey lat lon date of
             Inl ex \<Rightarrow> (Inl ex, m)
           | Inr key \<Rightarrow>
               (let cacheEntry =
                      \<lparr>id_key = key, location = (lat, lon), date_text = iso_date t,
                       data = payload, cachedAt = now,
                       expiresAt = setHours_plus tz now CACHE_EXPIRY_HOURS\<rparr>;
                    m1 = m\<lparr>memoryCache := (memoryCache m)(key \<mapsto> cacheEntry)\<rparr>
                in case db m1 of
                     None \<Rightarrow> (Inr (), m1)
                   | Some d \<Rightarrow>
                       (case put_req of
                          onsuccess \<Rightarrow>
                            (Inr (),
                             m1\<lparr>db := Some (d\<lparr>historical_weather :=
                                    (historical_weather d)(key \<mapsto> cacheEntry)\<rparr>)\<rparr>)
                        | onerror \<Rightarrow> (Inl RequestError, m1)))))"

subsection \<open>Analytics records\<close>




definition setAnalytics ::
  "time_zone \<Rightarrow> int \<Rightarrow> request_outcome \<Rightarrow> string \<Rightarrow> analysis_type \<Rightarrow> TimeRange \<Rightarrow> 'a \<Rightarrow>
   ('d, 'a) manager \<Rightarrow> (cache_failure + unit) \<times> ('d, 'a) manager" where
  "setAnalytics tz now put_req loc atype trange payload m =
     (let key = generateAnalyticsKey loc atype trange;
          cacheEntry =
            \<lparr>analytics_id = key, locationId = loc, analysisType = atype, timeRange = trange,
             analytics_data = payload, calculatedAt = now,
             analytics_expiresAt = setHours_plus tz now ANALYTICS_EXPIRY_HOURS\<rparr>;
          m1 = m\<lparr>analyticsMemoryCache := (analyticsMemoryCache m)(key \<mapsto> cacheEntry)\<rparr>
      in case db m1 of
           None \<Rightarrow> (Inr (), m1)
         | Some d \<Rightarrow>
             (case put_req of
                onsuccess \<Rightarrow>
                  (Inr (),
                   m1\<lparr>db := Some (d\<lparr>weather_analytics :=
                          (weather_analytics d)(key \<mapsto> cacheEntry)\<rparr>)\<rparr>)
              | onerror \<Rightarrow> (Inl RequestError, m1)))"

subsection \<open>Sweeping and clearing\<close>

text \<open>\<open>drop_where P m\<close>: the map \<open>m\<close> without the entries that satisfy \<open>P\<close>.\<close>

definition drop_where :: "('v \<Rightarrow> bool) \<Rightarrow> ('k \<rightharpoonup> 'v) \<Rightarrow> ('k \<rightharpoonup> 'v)" where
  "drop_where P m = (\<lambda>k. case m k of None \<Rightarrow> None | Some e \<Rightarrow> if P e then None else Some e)"

text \<open>
  \<open>clearExpiredCache\<close>. It returns at once when there is no database. Otherwise a
  cursor over the \<open>expiresAt\<close> index with \<open>IDBKeyRange.upperBound(now)\<close> deletes the
  stored entries with \<open>expiresAt \<le> now\<close> in each store, and the iterations over the
  two memory maps delete the entries for which \<open>isExpired\<close> holds. The cursors are
  taken as run to their end when the operation returns.
\<close>

definition clearExpiredCache :: "int \<Rightarrow> ('d, 'a) manager \<Rightarrow> ('d, 'a) manager" where
  "clearExpiredCache now m =
     (case db m of
        None \<Rightarrow> m
      | Some d \<Rightarrow>
          \<lparr>db = Some
             \<lparr>historical_weather = drop_where (\<lambda>e. expiresAt e \<le> now) (historical_weather d),
              weather_analytics =
                drop_where (\<lambda>e. analytics_expiresAt e \<le> now) (weather_analytics d)\<rparr>,
           memoryCache = drop_where (\<lambda>e. isExpired now (expiresAt e)) (memoryCache m),
           analyticsMemoryCache =
             drop_where (\<lambda>e. isExpired now (analytics_expiresAt e)) (analyticsMemoryCache m)\<rparr>)"

definition clearAllCache ::
  "request_outcome \<Rightarrow> ('d, 'a) manager \<Rightarrow> (cache_failure + unit) \<times> ('d, 'a) manager" where
  "clearAllCache clear_req m =
     (let m1 = m\<lparr>memoryCache := Map.empty, analyticsMemoryCache := Map.empty\<rparr> in
      case db m1 of
        None \<Rightarrow> (Inr (), m1)
      | Some d \<Rightarrow>
          (case clear_req of
             onsuccess \<Rightarrow>
               (Inr (),
                m1\<lparr>db := Some \<lparr>historical_weather = Map.empty, weather_analytics = Map.empty\<rparr>\<rparr>)
           | onerror \<Rightarrow> (Inl RequestError, m1)))"

definition close :: "('d, 'a) manager \<Rightarrow> ('d, 'a) manager" where
  "close m = m\<lparr>db := None\<rparr>"

section \<open>Cached fetch (useHistoricalWeatherCache, CachedHistoricalWeatherAPI)\<close>

text \<open>
  What a call of the hook layer can throw: a failure of the cache manager, the hook's own
  \<open>Cache manager not initialized\<close> error, or whatever the fetch function rejected with.
\<close>

datatype thrown = CacheFailure cache_failure | NotInitialized | FetchRejected raw_error

text \<open>
  The state of \<open>useHistoricalWeatherCache\<close> that its operations read and write. The
  error state keeps the failure rather than its message text. The \<open>cacheStats\<close> state
  and its refresh after a write are left out: they do not reach any result below.
\<close>

record ('d, 'a) cache_hook =
  isInitialized :: bool
  cacheManager :: "('d, 'a) manager option"
  hook_error :: "cache_failure option"

definition hook_getHistoricalWeather ::
  "int \<Rightarrow> request_outcome \<Rightarrow> request_outcome \<Rightarrow> rat \<Rightarrow> rat \<Rightarrow> js_date \<Rightarrow>
   ('d, 'a) cache_hook \<Rightarrow> (thrown + 'd option) \<times> ('d, 'a) cache_hook" where
  "hook_getHistoricalWeather now get_req delete_req lat lon date h =
     (case cacheManager h of
        None \<Rightarrow> (Inl NotInitialized, h)
      | Some m \<Rightarrow>
          (case getHistoricalWeather now get_req delete_req lat lon date m of
             (Inl err, m1) \<Rightarrow> (Inr None, h\<lparr>cacheManager := Some m1, hook_error := Some err\<rparr>)
           | (Inr r, m1) \<Rightarrow> (Inr r, h\<lparr>cacheManager := Some m1\<rparr>)))"

definition hook_setHistoricalWeather ::
  "time_zone \<Rightarrow> int \<Rightarrow> request_outcome \<Rightarrow> rat \<Rightarrow> rat \<Rightarrow> js_date \<Rightarrow> 'd \<Rightarrow>
   ('d, 'a) cache_hook \<Rightarrow> (thrown + unit) \<times> ('d, 'a) cache_hook" where
  "hook_setHistoricalWeather tz now put_req lat lon date payload h =
     (case cacheManager h of
        None \<Rightarrow> (Inl NotInitialized, h)
      | Some m \<Rightarrow>
          (case setHistoricalWeather tz now put_req lat lon date payload m of
             (Inl err, m1) \<Rightarrow>
               (Inl (CacheFailure err), h\<lparr>cacheManager := Some m1, hook_error := Some err\<rparr>)
           | (Inr u, m1) \<Rightarrow> (Inr (), h\<lparr>cacheManager := Some m1\<rparr>)))"

text \<open>
  \<open>fetchFunction k\<close> is how call number \<open>k\<close> (from \<open>0\<close>) of the supplied fetch
  function settles. A run of \<open>fetchWithCache\<close> records how its promise settles, the
  hook state after it, and how many times the fetch function was invoked.
\<close>

record ('d, 'a) cached_fetch =
  settles :: "thrown + 'd"
  hook_after :: "('d, 'a) cache_hook"
  fetch_invocations :: nat

definition direct_fetch :: "'d settled \<Rightarrow> thrown + 'd" where
  "direct_fetch r = (case r of Resolved v \<Rightarrow> Inr v | Rejected e \<Rightarrow> Inl (FetchRejected e))"

text \<open>
  \<open>fetchWithCache\<close>. \<open>now\<close> is the clock at the lookup, \<open>now'\<close> the clock at the
  write that follows the fetch. Everything thrown inside the \<open>try\<close> block, by the cache
  or by the fetch function, ends in the \<open>catch\<close> block, which calls the fetch function
  (again) and returns what that call gives.
\<close>

definition fetchWithCache ::
  "time_zone \<Rightarrow> int \<Rightarrow> int \<Rightarrow> request_outcome \<Rightarrow> request_outcome \<Rightarrow> request_outcome \<Rightarrow>
   rat \<Rightarrow> rat \<Rightarrow> js_date \<Rightarrow> (nat \<Rightarrow> 'd settled) \<Rightarrow> ('d, 'a) cache_hook \<Rightarrow>
   ('d, 'a) cached_fetch" where
  "fetchWithCache tz now now' get_req delete_req put_req lat lon date fetchFunction h =
     (if \<not> isInitialized h then
        \<lparr>settles = direct_fetch (fetchFunction 0), hook_after = h, fetch_invocations = 1\<rparr>
      else
        (case hook_getHistoricalWeather now get_req delete_req lat lon date h of
           (Inl err, h1) \<Rightarrow>
             \<lparr>settles = direct_fetch (fetchFunction 0), hook_after = h1, fetch_invocations = 1\<rparr>
         | (Inr (Some cached), h1) \<Rightarrow>
             \<lparr>settles = Inr cached, hook_after = h1, fetch_invocations = 0\<rparr>
         | (Inr None, h1) \<Rightarrow>
             (case fetchFunction 0 of
                Rejected e \<Rightarrow>
                  \<lparr>settles = direct_fetch (fetchFunction 1), hook_after = h1,
                   fetch_invocations = 2\<rparr>
              | Resolved payload \<Rightarrow>
                  (case hook_setHistoricalWeather tz now' put_req lat lon date payload h1 of
                     (Inl err, h2) \<Rightarrow>
                       \<lparr>settles = direct_fetch (fetchFunction 1), hook_after = h2,
                        fetch_invocations = 2\<rparr>
                   | (Inr u, h2) \<Rightarrow>
                       \<lparr>settles = Inr payload, hook_after = h2, fetch_invocations = 1\<rparr>))))"

text \<open>
  \<open>CachedHistoricalWeatherAPI.getHistoricalWeather\<close>, on a manager that is already
  initialised. It has no \<open>try\<close>: what a cache operation or the fetch function throws
  is what the call throws.
\<close>

record ('d, 'a) api_fetch =
  api_settles :: "thrown + 'd"
  manager_after :: "('d, 'a) manager"
  api_fetch_invocations :: nat

definition CachedHistoricalWeatherAPI_getHistoricalWeather ::
  "time_zone \<Rightarrow> int \<Rightarrow> int \<Rightarrow> request_outcome \<Rightarrow> request_outcome \<Rightarrow> request_outcome \<Rightarrow>
   rat \<Rightarrow> rat \<Rightarrow> js_date \<Rightarrow> (nat \<Rightarrow> 'd settled) \<Rightarrow> ('d, 'a) manager \<Rightarrow>
   ('d, 'a) api_fetch" where
  "CachedHistoricalWeatherAPI_getHistoricalWeather tz now now' get_req delete_req put_req
     lat lon date fetchFunction m =
     (case getHistoricalWeather now get_req delete_req lat lon date m of
        (Inl err, m1) \<Rightarrow>
          \<lparr>api_settles = Inl (CacheFailure err), manager_after = m1, api_fetch_invocations = 0\<rparr>
      | (Inr (Some cached), m1) \<Rightarrow>
          \<lparr>api_settles = Inr cached, manager_after = m1, api_fetch_invocations = 0\<rparr>
      | (Inr None, m1) \<Rightarrow>
          (case fetchFunction 0 of
             Rejected e \<Rightarrow>
               \<lparr>api_settles = Inl (FetchRejected e), manager_after = m1,
                api_fetch_invocations = 1\<rparr>
           | Resolved payload \<Rightarrow>
               (case setHistoricalWeather tz now' put_req lat lon date payload m1 of
                  (Inl err, m2) \<Rightarrow>
                    \<lparr>api_settles = Inl (CacheFailure err), manager_after = m2,
                     api_fetch_invocations = 1\<rparr>
                | (Inr u, m2) \<Rightarrow>
                    \<lparr>api_settles = Inr payload, manager_after = m2,
                     api_fetch_invocations = 1\<rparr>)))"

section \<open>Example inputs\<close>


text \<open>Responses with a status: 401, and 429 with a \<open>retry-after\<close> header of 60 seconds.\<close>

definition response_with :: "int \<Rightarrow> (string \<rightharpoonup> string) option \<Rightarrow> raw_object" where
  "response_with s h =
     \<lparr>isTypeError = False, msg = None, status = Some (Some s), statusCodeProp = None,
      headers = h\<rparr>"

definition unauthorized :: raw_error where
  "unauthorized = Object (response_with 401 None)"




text \<open>
  \<open>parseInt\<close> as far as the examples reach it: they apply it to the header value
  \<open>''60''\<close> only, on which it returns \<open>60\<close>.
\<close>

definition header_parseInt :: "string \<Rightarrow> js_number" where
  "header_parseInt v = (if v = ''60'' then Num 60 else NaN)"

text \<open>An operation that fails the same way at every call, and a constant jitter source.\<close>

definition always_rejects :: "raw_error \<Rightarrow> nat \<Rightarrow> unit settled" where
  "always_rejects e k = Rejected e"

definition half :: "int \<Rightarrow> rat" where
  "half n = 1 / 2"

text \<open>
  Time zones: one whose offset from UTC is the same at all times, and one whose clocks
  go forward by an hour ten hours after the epoch (a reading of the local clock inside
  the skipped hour is taken with the offset before the change).
\<close>

definition fixed_offset :: "int \<Rightarrow> time_zone" where
  "fixed_offset off = \<lparr>LocalTime = (\<lambda>t. t + off), UTC = (\<lambda>l. l - off)\<rparr>"

definition spring_forward :: time_zone where
  "spring_forward =
     \<lparr>LocalTime = (\<lambda>t. if t < 36000000 then t else t + 3600000),
      UTC = (\<lambda>l. if l < 39600000 then l else l - 3600000)\<rparr>"

text \<open>
  A place and a day, the key they give, and managers holding string payloads: one with
  an empty database, one in memory-only mode whose single entry expired at time 1000,
  and one with that entry in both tiers.
\<close>

definition example_lat :: rat where
  "example_lat = 407128 / 10000"

definition example_lon :: rat where
  "example_lon = - 74006 / 1000"

definition example_date :: js_date where
  "example_date = DateMs 1672531200000"

definition example_key :: string where
  "example_key = ''40.7128_-74.0060_2023-01-01''"

definition empty_database :: "(string, string) idb" where
  "empty_database = \<lparr>historical_weather = Map.empty, weather_analytics = Map.empty\<rparr>"

definition with_database :: "(string, string) manager" where
  "with_database =
     \<lparr>db = Some empty_database, memoryCache = Map.empty, analyticsMemoryCache = Map.empty\<rparr>"

definition stale_entry :: "string HistoricalWeatherCache" where
  "stale_entry =
     \<lparr>id_key = example_key, location = (example_lat, example_lon), date_text = ''2023-01-01'',
      data = ''old reading'', cachedAt = 0, expiresAt = 1000\<rparr>"


definition stale_memory_only :: "(string, string) manager" where
  "stale_memory_only =
     \<lparr>db = None, memoryCache = [example_key \<mapsto> stale_entry],
      analyticsMemoryCache = Map.empty\<rparr>"


text \<open>A fetch function whose first call and later calls resolve to different readings.\<close>

definition fetch_reading :: "nat \<Rightarrow> string settled" where
  "fetch_reading k = Resolved (if k = 0 then ''first reading'' else ''second reading'')"

definition ready_hook :: "(string, string) cache_hook" where
  "ready_hook = \<lparr>isInitialized = True, cacheManager = Some with_database, hook_error = None\<rparr>"




section \<open>Properties of the error taxonomy and the retry engine\<close>






text \<open>
  C5. \<open>isRetryable\<close> holds exactly when the code is one of \<open>NETWORK_ERROR\<close>,
  \<open>SERVICE_UNAVAILABLE\<close>, \<open>API_LIMIT_ERROR\<close>, or the status code is one of 429, 500,
  502, 503, 504.
\<close>

theorem isRetryable_iff:
  "isRetryable e \<longleftrightarrow>
     (code e \<in> {''NETWORK_ERROR'', ''SERVICE_UNAVAILABLE'', ''API_LIMIT_ERROR''} \<or>
      statusCode e \<in> {Some 429, Some 500, Some 502, Some 503, Some 504})"
  by (cases "statusCode e")
     (auto simp: isRetryable_def retryableCodes_def retryableStatusCodes_def)











text \<open>
  C4. When the first failure of the operation classifies as non-retryable, \<open>withRetry\<close>
  (with at least one attempt allowed) invokes the operation exactly once, waits for no
  delay, and fails with the classified error, whatever \<open>maxAttempts\<close> is.
\<close>

theorem withRetry_non_retryable_fails_at_once:
  assumes "1 \<le> maxAttempts"
    and "operation 0 = Rejected e"
    and "\<not> isRetryable (handleAPIError parseInt e (Some ctx))"
  shows "withRetry parseInt operation maxAttempts ctx rnd =
     \<lparr>outcome = Thrown (handleAPIError parseInt e (Some ctx)), invocations = 1, delays = []\<rparr>"
  using assms by (simp add: withRetry_def withRetry_loop.simps [of _ _ _ _ _ 1])

theorem withRetry_non_retryable_fails_at_once_witness:
  "\<not> isRetryable (handleAPIError header_parseInt unauthorized (Some ''operation'')) \<and>
   code (handleAPIError header_parseInt unauthorized (Some ''operation'')) = ''INVALID_API_KEY'' \<and>
   withRetry header_parseInt (always_rejects unauthorized) 5 ''operation'' half =
     \<lparr>outcome = Thrown (handleAPIError header_parseInt unauthorized (Some ''operation'')),
      invocations = 1, delays = []\<rparr>"
proof -
  have c: "handleAPIError header_parseInt unauthorized (Some ''operation'') =
      new_HistoricalWeatherError
        ''Invalid API key. Please check your OpenWeatherMap API key configuration.''
        ''INVALID_API_KEY'' (Some 401)"
    by (simp add: unauthorized_def response_with_def message_text_def has_status_property_def
          status_error_def status_or_statusCode_def)
  have n: "\<not> isRetryable (handleAPIError header_parseInt unauthorized (Some ''operation''))"
    unfolding c
    by (simp add: isRetryable_def retryableCodes_def retryableStatusCodes_def
          new_HistoricalWeatherError_def)
  have k: "code (handleAPIError header_parseInt unauthorized (Some ''operation'')) =
      ''INVALID_API_KEY''"
    unfolding c by (simp add: new_HistoricalWeatherError_def)
  show ?thesis
    using withRetry_non_retryable_fails_at_once
      [of 5 "always_rejects unauthorized" unauthorized header_parseInt "''operation''" half] n k
    by (simp add: always_rejects_def)
qed

section \<open>Properties of the cache manager\<close>

subsection \<open>Evaluating keys\<close>

lemma floor_rat_numeral:
  "\<lfloor>numeral a / numeral b :: rat\<rfloor> = numeral a div numeral b"
  using floor_divide_of_int_eq [of "numeral a" "numeral b", where ?'a = rat] by simp

lemma digits_small: "n < 10 \<Longrightarrow> digits n = [digit_char n]"
  by (simp add: digits.simps)

lemma digits_large: "10 \<le> n \<Longrightarrow> digits n = digits (n div 10) @ [digit_char (n mod 10)]"
  by (subst digits.simps) simp

lemma replicate_pos: "0 < n \<Longrightarrow> replicate n x = x # replicate (n - 1) x"
  by (cases n) simp_all

lemmas civil_eval =
  civil_from_days_def civil_of_era_def civil_of_year_def civil_of_day_def civil_of_month_def
  month_of_def

lemmas key_eval =
  generateHistoricalKey_def toFixed4_def pad_fraction_def insert_point_def floor_rat_numeral
  iso_date_def civil_eval msPerDay_def iso_year_def padStart_def digits_small digits_large
  digit_char_def replicate_pos

lemma example_key_eval:
  "generateHistoricalKey example_lat example_lon example_date = Inr example_key"
  by (simp add: example_lat_def example_lon_def example_date_def example_key_def key_eval)

subsection \<open>Writing, then reading\<close>

lemma key_is_valid_date:
  "generateHistoricalKey lat lon date = Inr key \<Longrightarrow> \<exists>t. date = DateMs t"
  by (cases date) (simp_all add: generateHistoricalKey_def)


lemma setHours_plus_fixed_offset:
  "setHours_plus (fixed_offset off) t h = t + h * 3600000"
  by (simp add: setHours_plus_def fixed_offset_def msPerHour_def)

lemma setHistoricalWeather_memory:
  assumes "generateHistoricalKey lat lon date = Inr key"
  shows "\<exists>e. memoryCache (snd (setHistoricalWeather tz now put_req lat lon date payload m)) key =
               Some e \<and>
             data e = payload \<and> expiresAt e = setHours_plus tz now 24"
proof -
  obtain t where t: "date = DateMs t"
    using key_is_valid_date [OF assms] by blast
  show ?thesis
    using assms unfolding t
    by (cases "db m"; cases put_req)
       (simp_all add: setHistoricalWeather_def Let_def CACHE_EXPIRY_HOURS_def)
qed

lemma getHistoricalWeather_memory_hit:
  assumes "generateHistoricalKey lat lon date = Inr key"
    and "memoryCache m key = Some e"
    and "\<not> isExpired now (expiresAt e)"
  shows "getHistoricalWeather now get_req delete_req lat lon date m = (Inr (Some (data e)), m)"
  using assms by (simp add: getHistoricalWeather_def)


lemma setHistoricalWeather_put_fails:
  assumes "db m = Some d" and "put_req = onerror"
  shows "fst (setHistoricalWeather tz now put_req lat lon (DateMs t) payload m) =
           Inl RequestError \<and>
         db (snd (setHistoricalWeather tz now put_req lat lon (DateMs t) payload m)) = Some d"
  using assms
  by (simp add: setHistoricalWeather_def generateHistoricalKey_def Let_def)




text \<open>
  C2. When the database is present and its write fails, \<open>setHistoricalWeather\<close> fails
  with the request's error and the database is left as it was, yet the entry with the
  payload is in the memory tier, and a \<open>getHistoricalWeather\<close> with the same
  coordinates and date returns the payload at every time at which that entry has not
  expired.
\<close>

theorem set_fails_but_memory_serves:
  assumes "db m = Some d"
    and "put_req = onerror"
    and "generateHistoricalKey lat lon date = Inr key"
  shows "fst (setHistoricalWeather tz now put_req lat lon date payload m) = Inl RequestError \<and>
         db (snd (setHistoricalWeather tz now put_req lat lon date payload m)) = Some d \<and>
         (\<exists>e. memoryCache (snd (setHistoricalWeather tz now put_req lat lon date payload m)) key =
                 Some e \<and>
               data e = payload \<and>
               expiresAt e = setHours_plus tz now CACHE_EXPIRY_HOURS \<and>
               (\<forall>now' get_req delete_req.
                  \<not> isExpired now' (expiresAt e) \<longrightarrow>
                  fst (getHistoricalWeather now' get_req delete_req lat lon date
                        (snd (setHistoricalWeather tz now put_req lat lon date payload m))) =
                  Inr (Some payload)))"
proof -
  let ?m' = "snd (setHistoricalWeather tz now put_req lat lon date payload m)"
  obtain t where t: "date = DateMs t"
    using key_is_valid_date [OF assms(3)] by blast
  from setHistoricalWeather_memory
    [OF assms(3), where tz = tz and now = now and put_req = put_req and payload = payload
       and m = m]
  obtain e where e1: "memoryCache ?m' key = Some e"
    and e2: "data e = payload" and e3: "expiresAt e = setHours_plus tz now 24"
    by (elim exE conjE)
  have g: "fst (getHistoricalWeather now' get_req delete_req lat lon date ?m') =
      Inr (Some payload)"
    if "\<not> isExpired now' (expiresAt e)" for now' get_req delete_req
    using getHistoricalWeather_memory_hit [OF assms(3) e1 that] e2 by simp
  have f: "fst (setHistoricalWeather tz now put_req lat lon date payload m) = Inl RequestError \<and>
      db ?m' = Some d"
    unfolding t by (rule setHistoricalWeather_put_fails [OF assms(1,2)])
  show ?thesis
    using f e1 e2 e3 g by (auto simp: CACHE_EXPIRY_HOURS_def)
qed

theorem set_fails_but_memory_serves_witness:
  "fst (setHistoricalWeather spring_forward 5000 onerror example_lat example_lon example_date
         ''new reading'' with_database) = Inl RequestError \<and>
   db (snd (setHistoricalWeather spring_forward 5000 onerror example_lat example_lon
         example_date ''new reading'' with_database)) = Some empty_database \<and>
   (\<exists>e. memoryCache
          (snd (setHistoricalWeather spring_forward 5000 onerror example_lat example_lon
                  example_date ''new reading'' with_database)) example_key = Some e \<and>
        data e = ''new reading'' \<and> expiresAt e = 82805000) \<and>
   fst (getHistoricalWeather 82805000 onsuccess onsuccess example_lat example_lon example_date
         (snd (setHistoricalWeather spring_forward 5000 onerror example_lat example_lon
                 example_date ''new reading'' with_database))) =
   Inr (Some ''new reading'')"
proof -
  have s: "setHours_plus spring_forward 5000 CACHE_EXPIRY_HOURS = 82805000"
    by (simp add: setHours_plus_def spring_forward_def msPerHour_def CACHE_EXPIRY_HOURS_def)
  have d: "db with_database = Some empty_database"
    by (simp add: with_database_def)
  from set_fails_but_memory_serves
    [OF d refl example_key_eval, where tz = spring_forward and now = 5000
       and payload = "''new reading''"]
  show ?thesis
    unfolding s by (auto simp: isExpired_def)
qed

subsection \<open>Key normalisation\<close>

text \<open>
  C9, as amended. Two coordinate pairs whose latitudes, and whose longitudes, have the
  same sign and round to the same multiple of \<open>0.0001\<close> (nearest, ties away from zero),
  with two valid dates on the same UTC calendar day, give the same key.
\<close>

theorem generateHistoricalKey_collides:
  assumes "(lat1 < 0) = (lat2 < 0)"
    and "\<lfloor>\<bar>lat1\<bar> * 10000 + 1 / 2\<rfloor> = \<lfloor>\<bar>lat2\<bar> * 10000 + 1 / 2\<rfloor>"
    and "(lon1 < 0) = (lon2 < 0)"
    and "\<lfloor>\<bar>lon1\<bar> * 10000 + 1 / 2\<rfloor> = \<lfloor>\<bar>lon2\<bar> * 10000 + 1 / 2\<rfloor>"
    and "t1 div msPerDay = t2 div msPerDay"
  shows "generateHistoricalKey lat1 lon1 (DateMs t1) = generateHistoricalKey lat2 lon2 (DateMs t2)"
  using assms by (simp add: generateHistoricalKey_def toFixed4_def iso_date_def)

theorem generateHistoricalKey_collides_witness:
  "generateHistoricalKey (4071280001 / 100000000) (- 7400600002 / 100000000)
     (DateMs 1672531200000) =
   generateHistoricalKey (407128 / 10000) (- 74006 / 1000) (DateMs 1672617599999)"
  using generateHistoricalKey_collides
    [of "4071280001 / 100000000" "407128 / 10000" "- 7400600002 / 100000000" "- 74006 / 1000"
        1672531200000 1672617599999]
  by (simp add: floor_rat_numeral msPerDay_def)

text \<open>
  C9 as stated fails: \<open>0.0625\<close> and \<open>0.06256103515625\<close> (both exact doubles) agree in
  their first four decimals, and \<open>toFixed(4)\<close> rounds the second one up.
\<close>

theorem generateHistoricalKey_counterexample:
  "\<lfloor>(1 / 16 :: rat) * 10000\<rfloor> = \<lfloor>(1 / 16 + 1 / 16384 :: rat) * 10000\<rfloor> \<and>
   generateHistoricalKey (1 / 16) example_lon example_date =
     Inr ''0.0625_-74.0060_2023-01-01'' \<and>
   generateHistoricalKey (1 / 16 + 1 / 16384) example_lon example_date =
     Inr ''0.0626_-74.0060_2023-01-01''"
  by (simp add: example_lon_def example_date_def key_eval)

subsection \<open>Expired entries\<close>











lemma stale_memory_only_get:
  "getHistoricalWeather 2000 onsuccess onsuccess example_lat example_lon example_date
     stale_memory_only = (Inr None, stale_memory_only)"
  by (simp add: getHistoricalWeather_def getHistoricalWeather_db_def example_key_eval
        stale_memory_only_def stale_entry_def isExpired_def)

lemma stale_memory_only_sweep:
  "clearExpiredCache 2000 stale_memory_only = stale_memory_only"
  by (simp add: clearExpiredCache_def stale_memory_only_def)


text \<open>
  C10. In memory-only mode, with an expired entry under the requested key,
  \<open>getHistoricalWeather\<close> returns none and leaves the manager unchanged, as claimed.
  A later \<open>clearExpiredCache\<close> does not remove the entry, against the claim: it returns
  before it reaches the memory maps. \<open>clearAllCache\<close> removes it.
\<close>

theorem clearExpiredCache_memory_only_keeps_expired:
  "db stale_memory_only = None \<and>
   memoryCache stale_memory_only example_key = Some stale_entry \<and>
   isExpired 2000 (expiresAt stale_entry) \<and>
   getHistoricalWeather 2000 onsuccess onsuccess example_lat example_lon example_date
     stale_memory_only = (Inr None, stale_memory_only) \<and>
   memoryCache (clearExpiredCache 2000 stale_memory_only) example_key = Some stale_entry \<and>
   memoryCache (snd (clearAllCache onsuccess stale_memory_only)) example_key = None"
proof -
  have "db stale_memory_only = None"
    and "memoryCache stale_memory_only example_key = Some stale_entry"
    by (simp_all add: stale_memory_only_def)
  moreover have "isExpired 2000 (expiresAt stale_entry)"
    by (simp add: isExpired_def stale_entry_def)
  moreover have "memoryCache (snd (clearAllCache onsuccess stale_memory_only)) example_key = None"
    by (simp add: clearAllCache_def Let_def stale_memory_only_def)
  ultimately show ?thesis
    by (simp add: stale_memory_only_get stale_memory_only_sweep)
qed

section \<open>Properties of the cached fetch\<close>

lemma direct_fetch_not_cache_failure:
  "direct_fetch r \<noteq> Inl (CacheFailure c)" "direct_fetch r \<noteq> Inl NotInitialized"
  by (cases r; simp add: direct_fetch_def)+

lemma fetchWithCache_fallback:
  assumes "isInitialized h"
    and "hook_getHistoricalWeather now get_req delete_req lat lon date h = (Inr None, h1)"
    and "fetchFunction 0 = Resolved payload"
    and "hook_setHistoricalWeather tz now' put_req lat lon date payload h1 = (Inl err, h2)"
  shows "fetchWithCache tz now now' get_req delete_req put_req lat lon date fetchFunction h =
     \<lparr>settles = direct_fetch (fetchFunction 1), hook_after = h2, fetch_invocations = 2\<rparr>"
  using assms by (simp add: fetchWithCache_def)

lemma example_key_eval_ms:
  "generateHistoricalKey example_lat example_lon (DateMs 1672531200000) = Inr example_key"
  using example_key_eval by (simp add: example_date_def)

lemma ready_hook_get:
  "hook_getHistoricalWeather 0 onsuccess onsuccess example_lat example_lon example_date
     ready_hook = (Inr None, ready_hook)"
  by (simp add: hook_getHistoricalWeather_def ready_hook_def getHistoricalWeather_def
        getHistoricalWeather_db_def example_key_eval with_database_def empty_database_def)

lemma ready_hook_set:
  "fst (hook_setHistoricalWeather (fixed_offset 0) 10 onerror example_lat example_lon example_date payload
          ready_hook) = Inl (CacheFailure RequestError)"
  by (simp add: hook_setHistoricalWeather_def ready_hook_def setHistoricalWeather_def
        example_date_def example_key_eval_ms with_database_def Let_def)

lemma ready_hook_set_memory:
  "\<exists>m e. cacheManager (snd (hook_setHistoricalWeather (fixed_offset 0) 10 onerror example_lat example_lon
                 example_date payload ready_hook)) = Some m \<and>
         memoryCache m example_key = Some e \<and> data e = payload \<and> expiresAt e = 86400010"
  by (simp add: hook_setHistoricalWeather_def ready_hook_def setHistoricalWeather_def
        example_date_def example_key_eval_ms with_database_def Let_def
        CACHE_EXPIRY_HOURS_def setHours_plus_fixed_offset)

text \<open>
  C1, as amended. When the lookup misses, the fetch succeeds and the cache write that
  follows fails, \<open>fetchWithCache\<close> does not let the write's failure through: it calls
  the fetch function a second time and settles as that second call does, so it returns
  the second call's result when that call succeeds.
\<close>

theorem fetchWithCache_write_failure_refetches:
  assumes "isInitialized h"
    and "hook_getHistoricalWeather now get_req delete_req lat lon date h = (Inr None, h1)"
    and "fetchFunction 0 = Resolved payload"
    and "hook_setHistoricalWeather tz now' put_req lat lon date payload h1 = (Inl err, h2)"
  shows "fetch_invocations
           (fetchWithCache tz now now' get_req delete_req put_req lat lon date fetchFunction h) = 2 \<and>
         settles (fetchWithCache tz now now' get_req delete_req put_req lat lon date fetchFunction h) =
           direct_fetch (fetchFunction 1) \<and>
         (\<forall>c. settles
                (fetchWithCache tz now now' get_req delete_req put_req lat lon date fetchFunction h) \<noteq>
              Inl (CacheFailure c)) \<and>
         (\<forall>v. fetchFunction 1 = Resolved v \<longrightarrow>
              settles
                (fetchWithCache tz now now' get_req delete_req put_req lat lon date fetchFunction h) =
              Inr v)"
  unfolding fetchWithCache_fallback [where fetchFunction = fetchFunction, OF assms]
  by (simp add: direct_fetch_not_cache_failure) (simp add: direct_fetch_def)

theorem fetchWithCache_write_failure_refetches_witness:
  "fetch_invocations
     (fetchWithCache (fixed_offset 0) 0 10 onsuccess onsuccess onerror example_lat example_lon example_date
        (\<lambda>k. Resolved ''reading'') ready_hook) = 2 \<and>
   settles
     (fetchWithCache (fixed_offset 0) 0 10 onsuccess onsuccess onerror example_lat example_lon example_date
        (\<lambda>k. Resolved ''reading'') ready_hook) = Inr ''reading''"
proof -
  have s: "hook_setHistoricalWeather (fixed_offset 0) 10 onerror example_lat example_lon example_date ''reading''
      ready_hook =
      (Inl (CacheFailure RequestError),
       snd (hook_setHistoricalWeather (fixed_offset 0) 10 onerror example_lat example_lon example_date ''reading''
              ready_hook))"
    using ready_hook_set [of "''reading''"] by (simp add: prod_eq_iff)
  have i: "isInitialized ready_hook"
    by (simp add: ready_hook_def)
  have f: "(\<lambda>k::nat. Resolved ''reading'') 0 = Resolved ''reading''"
    by simp
  from fetchWithCache_write_failure_refetches
    [where fetchFunction = "\<lambda>k. Resolved ''reading''" and put_req = onerror,
     OF i ready_hook_get f s]
  show ?thesis by (simp add: direct_fetch_def)
qed

text \<open>
  C1 as stated fails. The database rejects the write of the first reading; the hook's
  \<open>fetchWithCache\<close> then calls the fetch function a second time and returns the second
  reading, while the memory tier keeps the first one. On the same input
  \<open>CachedHistoricalWeatherAPI.getHistoricalWeather\<close> fails with the write's error.
\<close>

theorem fetchWithCache_refetch_counterexample:
  "fetch_reading 0 = Resolved ''first reading'' \<and>
   fetch_invocations
     (fetchWithCache (fixed_offset 0) 0 10 onsuccess onsuccess onerror example_lat example_lon example_date
        fetch_reading ready_hook) = 2 \<and>
   settles
     (fetchWithCache (fixed_offset 0) 0 10 onsuccess onsuccess onerror example_lat example_lon example_date
        fetch_reading ready_hook) = Inr ''second reading'' \<and>
   fst (hook_getHistoricalWeather 20 onsuccess onsuccess example_lat example_lon example_date
          (hook_after
             (fetchWithCache (fixed_offset 0) 0 10 onsuccess onsuccess onerror example_lat example_lon
                example_date fetch_reading ready_hook))) = Inr (Some ''first reading'') \<and>
   api_settles
     (CachedHistoricalWeatherAPI_getHistoricalWeather (fixed_offset 0) 0 10 onsuccess onsuccess onerror
        example_lat example_lon example_date fetch_reading with_database) =
     Inl (CacheFailure RequestError)"
proof -
  let ?h2 = "snd (hook_setHistoricalWeather (fixed_offset 0) 10 onerror example_lat example_lon example_date
                    ''first reading'' ready_hook)"
  have f0: "fetch_reading 0 = Resolved ''first reading''"
    by (simp add: fetch_reading_def)
  have s: "hook_setHistoricalWeather (fixed_offset 0) 10 onerror example_lat example_lon example_date
      ''first reading'' ready_hook = (Inl (CacheFailure RequestError), ?h2)"
    using ready_hook_set [of "''first reading''"] by (simp add: prod_eq_iff)
  have i: "isInitialized ready_hook"
    by (simp add: ready_hook_def)
  have run: "fetchWithCache (fixed_offset 0) 0 10 onsuccess onsuccess onerror example_lat example_lon example_date
      fetch_reading ready_hook =
      \<lparr>settles = Inr ''second reading'', hook_after = ?h2, fetch_invocations = 2\<rparr>"
    using fetchWithCache_fallback [where fetchFunction = fetch_reading, OF i ready_hook_get f0 s]
    by (simp add: fetch_reading_def direct_fetch_def)
  obtain m e where me: "cacheManager ?h2 = Some m" "memoryCache m example_key = Some e"
    "data e = ''first reading''" "expiresAt e = 86400010"
    using ready_hook_set_memory [of "''first reading''"] by (elim exE conjE)
  have ne: "\<not> isExpired 20 (expiresAt e)"
    by (simp add: me(4) isExpired_def)
  have g: "getHistoricalWeather 20 onsuccess onsuccess example_lat example_lon example_date m =
      (Inr (Some (data e)), m)"
    by (rule getHistoricalWeather_memory_hit [OF example_key_eval me(2) ne])
  have later: "fst (hook_getHistoricalWeather 20 onsuccess onsuccess example_lat example_lon
      example_date ?h2) = Inr (Some ''first reading'')"
    by (simp add: hook_getHistoricalWeather_def me(1) g me(3))
  have api: "api_settles
     (CachedHistoricalWeatherAPI_getHistoricalWeather (fixed_offset 0) 0 10 onsuccess onsuccess onerror
        example_lat example_lon example_date fetch_reading with_database) =
     Inl (CacheFailure RequestError)"
    by (simp add: CachedHistoricalWeatherAPI_getHistoricalWeather_def getHistoricalWeather_def
          getHistoricalWeather_db_def example_key_eval with_database_def empty_database_def f0
          setHistoricalWeather_def example_date_def example_key_eval_ms Let_def)
  show ?thesis
    by (simp add: f0 run later api)
qed

end
